theory Spec2Isabelle
  imports Main "HOL-Library.Sublist"
begin

section \<open>The VMware Fusion 5 driver of builder/vmware/driver.go\<close>

text \<open>
  The driver is a thin layer over Go's standard library and two vendor programs. What the
  source calls but does not define (\<^verbatim>\<open>filepath.Abs\<close>, \<^verbatim>\<open>filepath.Join\<close>,
  \<^verbatim>\<open>strings.TrimSpace\<close>, the file system behind \<^verbatim>\<open>os.Stat\<close> and the child process
  behind \<^verbatim>\<open>cmd.Run\<close>) is a field of the record \<open>platform\<close>; every theorem holds for
  every platform. What the source does itself (the argument lists, the order of the
  checks, the scan of the output lines, which values are returned and which are dropped)
  is written out.
\<close>

subsection \<open>Errors\<close>

text \<open>The error numbers that \<^verbatim>\<open>stat\<close>, \<^verbatim>\<open>getwd\<close> and \<^verbatim>\<open>fork/exec\<close> report.\<close>

datatype errno = ENOENT | EACCES | ENOTDIR | ELOOP | ENAMETOOLONG | EIO

text \<open>
  The error values that reach the driver: \<^verbatim>\<open>*os.PathError\<close> (operation, path, error
  number), \<^verbatim>\<open>*os.SyscallError\<close> (system call, error number), \<^verbatim>\<open>*exec.ExitError\<close>
  (the exit status of a child that ran and did not succeed) and the value built by
  \<^verbatim>\<open>fmt.Errorf\<close> (a message).
\<close>

datatype error =
    PathError string string errno
  | SyscallError string errno
  | ExitError nat
  | ErrorString string

text \<open>\<^verbatim>\<open>os.IsNotExist\<close>: the error number under a path or system-call error is \<open>ENOENT\<close>.\<close>

fun os_IsNotExist :: "error \<Rightarrow> bool" where
  "os_IsNotExist (PathError opn path e) = (e = ENOENT)"
| "os_IsNotExist (SyscallError call e) = (e = ENOENT)"
| "os_IsNotExist (ExitError n) = False"
| "os_IsNotExist (ErrorString m) = False"

fun errno_Error :: "errno \<Rightarrow> string" where
  "errno_Error ENOENT = ''no such file or directory''"
| "errno_Error EACCES = ''permission denied''"
| "errno_Error ENOTDIR = ''not a directory''"
| "errno_Error ELOOP = ''too many levels of symbolic links''"
| "errno_Error ENAMETOOLONG = ''file name too long''"
| "errno_Error EIO = ''input/output error''"

text \<open>Decimal digits and numbers, as the text of an exit error writes the exit status.\<close>

definition digit :: "nat \<Rightarrow> char" where
  "digit n = ''0123456789'' ! n"

fun itoa :: "nat \<Rightarrow> string" where
  "itoa n = (if n < 10 then [digit n] else itoa (n div 10) @ [digit (n mod 10)])"

declare itoa.simps [simp del]

text \<open>The \<^verbatim>\<open>Error()\<close> method: the text of an error value.\<close>

fun Error :: "error \<Rightarrow> string" where
  "Error (PathError opn path e) = opn @ '' '' @ path @ '': '' @ errno_Error e"
| "Error (SyscallError call e) = call @ '': '' @ errno_Error e"
| "Error (ExitError n) = ''exit status '' @ itoa n"
| "Error (ErrorString m) = m"

subsection \<open>Strings\<close>

text \<open>\<^verbatim>\<open>strings.Split(s, sep)\<close> for a separator of one byte: the pieces between the
  separators, in order; one piece more than there are separators.\<close>

fun strings_Split :: "string \<Rightarrow> char \<Rightarrow> string list" where
  "strings_Split [] sep = [] # []"
| "strings_Split (c # cs) sep =
     (if c = sep then [] # strings_Split cs sep
      else (case strings_Split cs sep of
              [] \<Rightarrow> [c] # []
            | piece # pieces \<Rightarrow> (c # piece) # pieces))"

text \<open>The inverse of splitting: the pieces with the separator between them.\<close>

fun join_sep :: "char \<Rightarrow> string list \<Rightarrow> string" where
  "join_sep sep [] = []"
| "join_sep sep [x] = x"
| "join_sep sep (x # y # ys) = x @ sep # join_sep sep (y # ys)"

text \<open>\<^verbatim>\<open>strings.Contains(s, substr)\<close>.\<close>

fun strings_HasPrefix :: "string \<Rightarrow> string \<Rightarrow> bool" where
  "strings_HasPrefix s [] = True"
| "strings_HasPrefix [] (p # ps) = False"
| "strings_HasPrefix (c # cs) (p # ps) = (c = p \<and> strings_HasPrefix cs ps)"

fun strings_Contains :: "string \<Rightarrow> string \<Rightarrow> bool" where
  "strings_Contains [] sub = strings_HasPrefix [] sub"
| "strings_Contains (c # cs) sub = (strings_HasPrefix (c # cs) sub \<or> strings_Contains cs sub)"

text \<open>The verb \<^verbatim>\<open>%v\<close> of \<^verbatim>\<open>log.Printf\<close> on a slice of strings: the elements between
  brackets, separated by one space.\<close>

fun join_sp :: "string list \<Rightarrow> string" where
  "join_sp [] = []"
| "join_sp [x] = x"
| "join_sp (x # y # ys) = x @ '' '' @ join_sp (y # ys)"

definition fmt_v :: "string list \<Rightarrow> string" where
  "fmt_v xs = ''['' @ join_sp xs @ '']''"

subsection \<open>Commands, the platform and the state\<close>

text \<open>\<^verbatim>\<open>exec.Cmd\<close>: the program and the argument vector, whose first entry is the
  program's name. \<^verbatim>\<open>exec.Command\<close> searches the PATH only for a bare file name; the
  names given here are joined paths.\<close>

record Cmd =
  Path :: string
  Args :: "string list"

definition exec_Command :: "string \<Rightarrow> string list \<Rightarrow> Cmd" where
  "exec_Command name arg = \<lparr>Path = name, Args = name # arg\<rparr>"

text \<open>What became of a child process: it could not be started, or it ran and left
  an exit status.\<close>

datatype proc_status = NotStarted error | Exited nat

record proc_result =
  out_text :: string
  err_text :: string
  status :: proc_status

record platform =
  filepath_Abs :: "string \<Rightarrow> error + string"
  filepath_Join :: "string list \<Rightarrow> string"
  strings_TrimSpace :: "string \<Rightarrow> string"
  sys_stat :: "string \<Rightarrow> errno option"
  spawn :: "Cmd \<Rightarrow> proc_result"

text \<open>\<^verbatim>\<open>os.Stat\<close> wraps a failure of the system call in a path error.\<close>

definition os_Stat :: "platform \<Rightarrow> string \<Rightarrow> error option" where
  "os_Stat P name = map_option (PathError ''stat'' name) (sys_stat P name)"

text \<open>\<^verbatim>\<open>cmd.Run\<close> with both output buffers set: no error when the child exits with
  status 0, the start error when it could not be started, and otherwise an exit error
  that holds the exit status.\<close>

fun Run_err :: "proc_status \<Rightarrow> error option" where
  "Run_err (NotStarted e) = Some e"
| "Run_err (Exited n) = (if n = 0 then None else Some (ExitError n))"

record Fusion5Driver =
  AppPath :: string

text \<open>What a call leaves behind: log lines, child processes and existence checks, in
  the order in which they happen.\<close>

datatype event = Log string | Exec Cmd | Stat string

text \<open>The state a method runs in: the struct its receiver points to, and the events so
  far.\<close>

record state =
  driver :: Fusion5Driver
  trace :: "event list"

definition emit :: "event \<Rightarrow> state \<Rightarrow> state" where
  "emit e s = s\<lparr>trace := trace s @ [e]\<rparr>"

fun execs :: "event list \<Rightarrow> Cmd list" where
  "execs [] = []"
| "execs (Exec c # es) = c # execs es"
| "execs (Log l # es) = execs es"
| "execs (Stat p # es) = execs es"

fun stats :: "event list \<Rightarrow> string list" where
  "stats [] = []"
| "stats (Stat p # es) = p # stats es"
| "stats (Log l # es) = stats es"
| "stats (Exec c # es) = stats es"

fun logs :: "event list \<Rightarrow> string list" where
  "logs [] = []"
| "logs (Log l # es) = l # logs es"
| "logs (Exec c # es) = logs es"
| "logs (Stat p # es) = logs es"

subsection \<open>The driver\<close>

definition vdiskManagerPath :: "platform \<Rightarrow> Fusion5Driver \<Rightarrow> string" where
  "vdiskManagerPath P d =
     filepath_Join P [AppPath d, ''Contents'', ''Library'', ''vmware-vdiskmanager'']"

definition vmrunPath :: "platform \<Rightarrow> Fusion5Driver \<Rightarrow> string" where
  "vmrunPath P d = filepath_Join P [AppPath d, ''Contents'', ''Library'', ''vmrun'']"

definition runAndLog :: "platform \<Rightarrow> Cmd \<Rightarrow> state \<Rightarrow> (string \<times> string \<times> error option) \<times> state" where
  "runAndLog P cmd s =
     (let s1 = emit (Log (''Executing: '' @ Path cmd @ '' '' @ fmt_v (tl (Args cmd)))) s;
          r = spawn P cmd;
          s2 = emit (Exec cmd) s1;
          err = Run_err (status r);
          s3 = emit (Log (''stdout: '' @ strings_TrimSpace P (out_text r))) s2;
          s4 = emit (Log (''stderr: '' @ strings_TrimSpace P (err_text r))) s3
      in ((out_text r, err_text r, err), s4))"

definition CreateDisk :: "platform \<Rightarrow> string \<Rightarrow> string \<Rightarrow> state \<Rightarrow> error option \<times> state" where
  "CreateDisk P output size_s s =
     (let cmd = exec_Command (vdiskManagerPath P (driver s))
                  [''-c'', ''-s'', size_s, ''-a'', ''lsilogic'', ''-t'', ''1'', output]
      in case runAndLog P cmd s of
           ((out, err, Some e), s') \<Rightarrow> (Some e, s')
         | ((out, err, None), s') \<Rightarrow> (None, s'))"

text \<open>The loop of \<open>IsRunning\<close> over the lines: the first line equal to the path ends it.\<close>

fun line_loop :: "string list \<Rightarrow> string \<Rightarrow> bool" where
  "line_loop [] vmxPath = False"
| "line_loop (line # rest) vmxPath = (if line = vmxPath then True else line_loop rest vmxPath)"

definition IsRunning :: "platform \<Rightarrow> string \<Rightarrow> state \<Rightarrow> (bool \<times> error option) \<times> state" where
  "IsRunning P vmxPath s =
     (case filepath_Abs P vmxPath of
        Inl e \<Rightarrow> ((False, Some e), s)
      | Inr vmxPath' \<Rightarrow>
          (let cmd = exec_Command (vmrunPath P (driver s)) [''-T'', ''fusion'', ''list'']
           in case runAndLog P cmd s of
                ((out, err, Some e), s') \<Rightarrow> ((False, Some e), s')
              | ((out, err, None), s') \<Rightarrow>
                  ((line_loop (strings_Split out (CHR 0x0A)) vmxPath', None), s')))"

definition Start :: "platform \<Rightarrow> string \<Rightarrow> state \<Rightarrow> error option \<times> state" where
  "Start P vmxPath s =
     (let cmd = exec_Command (vmrunPath P (driver s))
                  [''-T'', ''fusion'', ''start'', vmxPath, ''gui'']
      in case runAndLog P cmd s of
           ((out, err, Some e), s') \<Rightarrow> (Some e, s')
         | ((out, err, None), s') \<Rightarrow> (None, s'))"

definition Stop :: "platform \<Rightarrow> string \<Rightarrow> state \<Rightarrow> error option \<times> state" where
  "Stop P vmxPath s =
     (let cmd = exec_Command (vmrunPath P (driver s))
                  [''-T'', ''fusion'', ''stop'', vmxPath, ''hard'']
      in case runAndLog P cmd s of
           ((out, err, Some e), s') \<Rightarrow> (Some e, s')
         | ((out, err, None), s') \<Rightarrow> (None, s'))"

definition Verify :: "platform \<Rightarrow> state \<Rightarrow> error option \<times> state" where
  "Verify P s =
     (let s1 = emit (Stat (AppPath (driver s))) s in
      case os_Stat P (AppPath (driver s)) of
        Some e \<Rightarrow>
          (if os_IsNotExist e
           then (Some (ErrorString (''Fusion application not found at path: '' @ AppPath (driver s))), s1)
           else (Some e, s1))
      | None \<Rightarrow>
          (let s2 = emit (Stat (vmrunPath P (driver s1))) s1 in
           case os_Stat P (vmrunPath P (driver s1)) of
             Some e \<Rightarrow>
               (if os_IsNotExist e
                then (Some (ErrorString (''Critical application 'vmrun' not found at path: ''
                                          @ vmrunPath P (driver s2))), s2)
                else (Some e, s2))
           | None \<Rightarrow>
               (let s3 = emit (Stat (vdiskManagerPath P (driver s2))) s2 in
                case os_Stat P (vdiskManagerPath P (driver s2)) of
                  Some e \<Rightarrow>
                    (if os_IsNotExist e
                     then (Some (ErrorString (''Critical application vdisk manager not found at path: ''
                                               @ vdiskManagerPath P (driver s3))), s3)
                     else (Some e, s3))
                | None \<Rightarrow> (None, s3))))"

subsection \<open>An example platform\<close>

text \<open>
  A platform to run the driver on concrete inputs: paths are joined with a slash (right
  for elements that are clean already), a relative path is resolved against the
  directory \<^verbatim>\<open>/home/packer\<close>, trimming removes the ASCII white space at both ends, and the
  file system and the child process are given.
\<close>

fun join_slash :: "string list \<Rightarrow> string" where
  "join_slash [] = []"
| "join_slash [x] = x"
| "join_slash (x # y # ys) = x @ ''/'' @ join_slash (y # ys)"

fun demo_Abs :: "string \<Rightarrow> error + string" where
  "demo_Abs [] = Inr ''/home/packer''"
| "demo_Abs (c # cs) = (if c = CHR ''/'' then Inr (c # cs) else Inr (''/home/packer/'' @ c # cs))"

definition is_space :: "char \<Rightarrow> bool" where
  "is_space c = (c = CHR '' '' \<or> c = CHR 0x09 \<or> c = CHR 0x0A \<or> c = CHR 0x0B \<or> c = CHR 0x0C \<or> c = CHR 0x0D)"

definition demo_TrimSpace :: "string \<Rightarrow> string" where
  "demo_TrimSpace s = rev (dropWhile is_space (rev (dropWhile is_space s)))"

definition demo :: "(string \<Rightarrow> errno option) \<Rightarrow> proc_result \<Rightarrow> platform" where
  "demo st r = \<lparr>filepath_Abs = demo_Abs, filepath_Join = join_slash,
                strings_TrimSpace = demo_TrimSpace, sys_stat = st, spawn = (\<lambda>c. r)\<rparr>"

text \<open>The same platform when the working directory cannot be found.\<close>

definition demo_nocwd :: "(string \<Rightarrow> errno option) \<Rightarrow> proc_result \<Rightarrow> platform" where
  "demo_nocwd st r = (demo st r)\<lparr>filepath_Abs := (\<lambda>p. Inl (SyscallError ''getwd'' ENOENT))\<rparr>"

definition all_present :: "string \<Rightarrow> errno option" where
  "all_present p = None"

definition failing_at :: "string \<Rightarrow> errno \<Rightarrow> string \<Rightarrow> errno option" where
  "failing_at p0 e p = (if p = p0 then Some e else None)"

definition exited :: "string \<Rightarrow> string \<Rightarrow> nat \<Rightarrow> proc_result" where
  "exited out err n = \<lparr>out_text = out, err_text = err, status = Exited n\<rparr>"

definition fusion :: Fusion5Driver where
  "fusion = \<lparr>AppPath = ''/Applications/VMware Fusion.app''\<rparr>"

definition s0 :: state where
  "s0 = \<lparr>driver = fusion, trace = []\<rparr>"

subsection \<open>The command lines of section 6 of the specification\<close>

definition runner :: "platform \<Rightarrow> state \<Rightarrow> string" where
  "runner P s = filepath_Join P [AppPath (driver s), ''Contents'', ''Library'', ''vmrun'']"

definition disk_manager :: "platform \<Rightarrow> state \<Rightarrow> string" where
  "disk_manager P s =
     filepath_Join P [AppPath (driver s), ''Contents'', ''Library'', ''vmware-vdiskmanager'']"

definition create_cmd :: "platform \<Rightarrow> state \<Rightarrow> string \<Rightarrow> string \<Rightarrow> Cmd" where
  "create_cmd P s output size_s =
     \<lparr>Path = disk_manager P s,
      Args = [disk_manager P s, ''-c'', ''-s'', size_s, ''-a'', ''lsilogic'', ''-t'', ''1'', output]\<rparr>"

definition list_cmd :: "platform \<Rightarrow> state \<Rightarrow> Cmd" where
  "list_cmd P s = \<lparr>Path = runner P s, Args = [runner P s, ''-T'', ''fusion'', ''list'']\<rparr>"

definition start_cmd :: "platform \<Rightarrow> state \<Rightarrow> string \<Rightarrow> Cmd" where
  "start_cmd P s vmxPath =
     \<lparr>Path = runner P s, Args = [runner P s, ''-T'', ''fusion'', ''start'', vmxPath, ''gui'']\<rparr>"

definition stop_cmd :: "platform \<Rightarrow> state \<Rightarrow> string \<Rightarrow> Cmd" where
  "stop_cmd P s vmxPath =
     \<lparr>Path = runner P s, Args = [runner P s, ''-T'', ''fusion'', ''stop'', vmxPath, ''hard'']\<rparr>"

text \<open>The lines of the captured standard output, as \<open>IsRunning\<close> splits them.\<close>

definition list_lines :: "platform \<Rightarrow> state \<Rightarrow> string list" where
  "list_lines P s = strings_Split (out_text (spawn P (list_cmd P s))) (CHR 0x0A)"

text \<open>The three messages of \<open>Verify\<close>.\<close>

definition app_not_found :: "string \<Rightarrow> error" where
  "app_not_found p = ErrorString (''Fusion application not found at path: '' @ p)"

definition vmrun_not_found :: "string \<Rightarrow> error" where
  "vmrun_not_found p = ErrorString (''Critical application 'vmrun' not found at path: '' @ p)"

definition vdisk_not_found :: "string \<Rightarrow> error" where
  "vdisk_not_found p =
     ErrorString (''Critical application vdisk manager not found at path: '' @ p)"

text \<open>What the existence check of \<open>Verify\<close> finds at a path: it is there when
  \<^verbatim>\<open>os.Stat\<close> returns no error, and missing when the error is a not-exist error.\<close>

definition exists_at :: "platform \<Rightarrow> string \<Rightarrow> bool" where
  "exists_at P p = (os_Stat P p = None)"

definition missing_at :: "platform \<Rightarrow> string \<Rightarrow> bool" where
  "missing_at P p = (case os_Stat P p of None \<Rightarrow> False | Some e \<Rightarrow> os_IsNotExist e)"

subsection \<open>Example runs\<close>

text \<open>The output of \<^verbatim>\<open>vmrun list\<close> with two machines running, with one, and with a line
  that differs from the queried path by a trailing blank, by case, or by being relative.\<close>

definition two_vms :: platform where
  "two_vms = demo all_present
     (exited ''Total running VMs: 2\<newline>/path/to/vm.vmx\<newline>/other/vm.vmx\<newline>'' [] 0)"

definition other_vm :: platform where
  "other_vm = demo all_present (exited ''Total running VMs: 1\<newline>/other/vm.vmx\<newline>'' [] 0)"

definition trailing_blank :: platform where
  "trailing_blank = demo all_present
     (exited ''Total running VMs: 1\<newline>/path/to/vm.vmx \<newline>'' [] 0)"

definition other_case :: platform where
  "other_case = demo all_present (exited ''Total running VMs: 1\<newline>/Path/To/VM.vmx\<newline>'' [] 0)"

definition relative_line :: platform where
  "relative_line = demo all_present (exited ''Total running VMs: 1\<newline>vm.vmx\<newline>'' [] 0)"

text \<open>A child that writes to its standard error and exits with status 1.\<close>

definition disk_full :: platform where
  "disk_full = demo all_present (exited [] ''Failed to create disk: disk full'' 1)"

text \<open>The same child where the working directory cannot be found.\<close>

definition lost_cwd :: platform where
  "lost_cwd = demo_nocwd all_present (exited [] [] 0)"

text \<open>Installations with one of the three paths missing or unreadable.\<close>

definition installed :: platform where
  "installed = demo all_present (exited [] [] 0)"

definition no_app :: platform where
  "no_app = demo (failing_at ''/Applications/VMware Fusion.app'' ENOENT) (exited [] [] 0)"

definition no_vmrun :: platform where
  "no_vmrun = demo (failing_at ''/Applications/VMware Fusion.app/Contents/Library/vmrun'' ENOENT)
     (exited [] [] 0)"

definition no_vdisk :: platform where
  "no_vdisk = demo
     (failing_at ''/Applications/VMware Fusion.app/Contents/Library/vmware-vdiskmanager'' ENOENT)
     (exited [] [] 0)"

definition app_denied :: platform where
  "app_denied = demo (failing_at ''/Applications/VMware Fusion.app'' EACCES) (exited [] [] 0)"

definition vmrun_denied :: platform where
  "vmrun_denied = demo (failing_at ''/Applications/VMware Fusion.app/Contents/Library/vmrun'' EACCES)
     (exited [] [] 0)"

definition vdisk_denied :: platform where
  "vdisk_denied = demo
     (failing_at ''/Applications/VMware Fusion.app/Contents/Library/vmware-vdiskmanager'' EACCES)
     (exited [] [] 0)"


section \<open>Auxiliary facts\<close>

lemma line_loop_mem: "line_loop ls v = (v \<in> set ls)"
  by (induction ls) auto

lemma execs_append: "execs (xs @ ys) = execs xs @ execs ys"
  by (induction xs rule: execs.induct) auto

lemma stats_append: "stats (xs @ ys) = stats xs @ stats ys"
  by (induction xs rule: stats.induct) auto

lemma logs_append: "logs (xs @ ys) = logs xs @ logs ys"
  by (induction xs rule: logs.induct) auto

lemma strings_Split_ne: "strings_Split s sep \<noteq> []"
  by (induction s) (auto split: list.split)

lemma strings_Split_length: "length (strings_Split s sep) = Suc (count_list s sep)"
  by (induction s) (auto simp: strings_Split_ne split: list.split)

lemma strings_Split_no_sep: "l \<in> set (strings_Split s sep) \<Longrightarrow> sep \<notin> set l"
proof (induction s arbitrary: l)
  case Nil
  then show ?case by simp
next
  case (Cons c cs)
  obtain h t where ht: "strings_Split cs sep = h # t"
    using strings_Split_ne [of cs sep] by (cases "strings_Split cs sep") auto
  have h: "sep \<notin> set h" and t: "\<And>x. x \<in> set t \<Longrightarrow> sep \<notin> set x"
    using Cons.IH ht by auto
  show ?case
  proof (cases "c = sep")
    case True
    with Cons.prems ht h t show ?thesis by auto
  next
    case False
    with Cons.prems ht h t show ?thesis by auto
  qed
qed

lemma strings_Split_join: "join_sep sep (strings_Split s sep) = s"
proof (induction s)
  case Nil
  then show ?case by simp
next
  case (Cons c cs)
  obtain h t where ht: "strings_Split cs sep = h # t"
    using strings_Split_ne [of cs sep] by (cases "strings_Split cs sep") auto
  with Cons show ?case by (cases t) auto
qed

lemma runAndLog_fst:
  "fst (runAndLog P cmd s) =
     (out_text (spawn P cmd), err_text (spawn P cmd), Run_err (status (spawn P cmd)))"
  by (simp add: runAndLog_def Let_def)

lemma runAndLog_driver: "driver (snd (runAndLog P cmd s)) = driver s"
  by (simp add: runAndLog_def Let_def emit_def)

lemma runAndLog_trace:
  "trace (snd (runAndLog P cmd s)) = trace s @
     [Log (''Executing: '' @ Path cmd @ '' '' @ fmt_v (tl (Args cmd))), Exec cmd,
      Log (''stdout: '' @ strings_TrimSpace P (out_text (spawn P cmd))),
      Log (''stderr: '' @ strings_TrimSpace P (err_text (spawn P cmd)))]"
  by (simp add: runAndLog_def Let_def emit_def)

lemma runAndLog_eq:
  "runAndLog P cmd s =
     ((out_text (spawn P cmd), err_text (spawn P cmd), Run_err (status (spawn P cmd))),
      s\<lparr>trace := trace s @
        [Log (''Executing: '' @ Path cmd @ '' '' @ fmt_v (tl (Args cmd))), Exec cmd,
         Log (''stdout: '' @ strings_TrimSpace P (out_text (spawn P cmd))),
         Log (''stderr: '' @ strings_TrimSpace P (err_text (spawn P cmd)))]\<rparr>)"
  by (simp add: runAndLog_def Let_def emit_def)

lemma create_cmd_eq:
  "exec_Command (vdiskManagerPath P (driver s))
     [''-c'', ''-s'', size_s, ''-a'', ''lsilogic'', ''-t'', ''1'', output] = create_cmd P s output size_s"
  by (simp add: exec_Command_def create_cmd_def disk_manager_def vdiskManagerPath_def)

lemma list_cmd_eq:
  "exec_Command (vmrunPath P (driver s)) [''-T'', ''fusion'', ''list''] = list_cmd P s"
  by (simp add: exec_Command_def list_cmd_def runner_def vmrunPath_def)

lemma start_cmd_eq:
  "exec_Command (vmrunPath P (driver s)) [''-T'', ''fusion'', ''start'', vmxPath, ''gui'']
     = start_cmd P s vmxPath"
  by (simp add: exec_Command_def start_cmd_def runner_def vmrunPath_def)

lemma stop_cmd_eq:
  "exec_Command (vmrunPath P (driver s)) [''-T'', ''fusion'', ''stop'', vmxPath, ''hard'']
     = stop_cmd P s vmxPath"
  by (simp add: exec_Command_def stop_cmd_def runner_def vmrunPath_def)

lemma CreateDisk_eq:
  "CreateDisk P output size_s s =
     (Run_err (status (spawn P (create_cmd P s output size_s))),
      snd (runAndLog P (create_cmd P s output size_s) s))"
  by (simp add: CreateDisk_def Let_def create_cmd_eq runAndLog_eq split: option.split)

lemma Start_eq:
  "Start P vmxPath s =
     (Run_err (status (spawn P (start_cmd P s vmxPath))),
      snd (runAndLog P (start_cmd P s vmxPath) s))"
  by (simp add: Start_def Let_def start_cmd_eq runAndLog_eq split: option.split)

lemma Stop_eq:
  "Stop P vmxPath s =
     (Run_err (status (spawn P (stop_cmd P s vmxPath))),
      snd (runAndLog P (stop_cmd P s vmxPath) s))"
  by (simp add: Stop_def Let_def stop_cmd_eq runAndLog_eq split: option.split)

lemma IsRunning_eq:
  "IsRunning P vmxPath s =
     (case filepath_Abs P vmxPath of
        Inl e \<Rightarrow> ((False, Some e), s)
      | Inr a \<Rightarrow>
          (case Run_err (status (spawn P (list_cmd P s))) of
             Some e \<Rightarrow> ((False, Some e), snd (runAndLog P (list_cmd P s) s))
           | None \<Rightarrow> ((a \<in> set (list_lines P s), None), snd (runAndLog P (list_cmd P s) s))))"
  by (simp add: IsRunning_def Let_def list_cmd_eq runAndLog_eq line_loop_mem list_lines_def
      split: option.split sum.split)


lemma Verify_eq:
  "Verify P s =
     (case sys_stat P (AppPath (driver s)) of
        Some e \<Rightarrow>
          (Some (if e = ENOENT then app_not_found (AppPath (driver s))
                 else PathError ''stat'' (AppPath (driver s)) e),
           s\<lparr>trace := trace s @ [Stat (AppPath (driver s))]\<rparr>)
      | None \<Rightarrow>
          (case sys_stat P (runner P s) of
             Some e \<Rightarrow>
               (Some (if e = ENOENT then vmrun_not_found (runner P s)
                      else PathError ''stat'' (runner P s) e),
                s\<lparr>trace := trace s @ [Stat (AppPath (driver s)), Stat (runner P s)]\<rparr>)
           | None \<Rightarrow>
               (case sys_stat P (disk_manager P s) of
                  Some e \<Rightarrow>
                    (Some (if e = ENOENT then vdisk_not_found (disk_manager P s)
                           else PathError ''stat'' (disk_manager P s) e),
                     s\<lparr>trace := trace s @ [Stat (AppPath (driver s)), Stat (runner P s),
                                              Stat (disk_manager P s)]\<rparr>)
                | None \<Rightarrow>
                    (None,
                     s\<lparr>trace := trace s @ [Stat (AppPath (driver s)), Stat (runner P s),
                                              Stat (disk_manager P s)]\<rparr>))))"
  by (simp add: Verify_def Let_def os_Stat_def emit_def vmrunPath_def vdiskManagerPath_def
      runner_def disk_manager_def app_not_found_def vmrun_not_found_def vdisk_not_found_def
      split: option.split)

lemma messages_distinct:
  "app_not_found x \<noteq> vmrun_not_found y" "app_not_found x \<noteq> vdisk_not_found z"
  "vmrun_not_found y \<noteq> vdisk_not_found z"
  by (simp_all add: app_not_found_def vmrun_not_found_def vdisk_not_found_def)


lemmas demo_defs = demo_def demo_nocwd_def all_present_def failing_at_def exited_def fusion_def
  s0_def runner_def disk_manager_def create_cmd_def list_cmd_def start_cmd_def stop_cmd_def
  list_lines_def exists_at_def missing_at_def os_Stat_def

lemma exists_at_iff: "exists_at P p = (sys_stat P p = None)"
  by (simp add: exists_at_def os_Stat_def)

lemma missing_at_iff: "missing_at P p = (sys_stat P p = Some ENOENT)"
  by (auto simp: missing_at_def os_Stat_def split: option.splits)

lemma Verify_stats:
  "stats (trace (snd (Verify P s))) = stats (trace s) @
     (if \<not> exists_at P (AppPath (driver s)) then [AppPath (driver s)]
      else if \<not> exists_at P (runner P s) then [AppPath (driver s), runner P s]
      else [AppPath (driver s), runner P s, disk_manager P s])"
  by (simp add: Verify_eq exists_at_iff stats_append split: option.split)

lemma IsRunning_trace:
  "trace (snd (IsRunning P vmxPath s)) =
     (case filepath_Abs P vmxPath of Inl e \<Rightarrow> trace s
      | Inr a \<Rightarrow> trace (snd (runAndLog P (list_cmd P s) s)))"
  by (simp add: IsRunning_eq split: sum.split option.split)

lemma strings_HasPrefix_iff: "strings_HasPrefix s p = prefix p s"
  by (induction s p rule: strings_HasPrefix.induct) auto

lemma strings_Contains_iff: "strings_Contains s sub = sublist sub s"
  by (induction s) (auto simp: strings_HasPrefix_iff sublist_Cons_right)

section \<open>The claims\<close>

text \<open>
  Claim C1. When the absolute form \<open>a\<close> of the queried path is found and the
  \<^verbatim>\<open>list\<close> child exits with status 0, \<open>IsRunning\<close> returns no error, and returns true
  if and only if \<open>a\<close> is one of the lines of the captured standard output, split at the
  newline. The comparison is equality of strings, so a line that differs from \<open>a\<close> in
  anything (a trailing blank, the case of a letter, a relative path) does not count.
\<close>

theorem IsRunning_true_iff_exact_line:
  assumes "filepath_Abs P vmxPath = Inr a"
    and "status (spawn P (list_cmd P s)) = Exited 0"
  shows "fst (IsRunning P vmxPath s) = (a \<in> set (list_lines P s), None)"
  using assms by (simp add: IsRunning_eq)

theorem IsRunning_true_iff_exact_line_witness:
  "filepath_Abs two_vms ''/path/to/vm.vmx'' = Inr ''/path/to/vm.vmx''
   \<and> status (spawn two_vms (list_cmd two_vms s0)) = Exited 0
   \<and> fst (IsRunning two_vms ''/path/to/vm.vmx'' s0) = (True, None)
   \<and> fst (IsRunning other_vm ''/path/to/vm.vmx'' s0) = (False, None)
   \<and> fst (IsRunning trailing_blank ''/path/to/vm.vmx'' s0) = (False, None)
   \<and> fst (IsRunning other_case ''/path/to/vm.vmx'' s0) = (False, None)
   \<and> filepath_Abs relative_line ''vm.vmx'' = Inr ''/home/packer/vm.vmx''
   \<and> fst (IsRunning relative_line ''vm.vmx'' s0) = (False, None)"
proof -
  have a: "filepath_Abs two_vms ''/path/to/vm.vmx'' = Inr ''/path/to/vm.vmx''"
    "filepath_Abs other_vm ''/path/to/vm.vmx'' = Inr ''/path/to/vm.vmx''"
    "filepath_Abs trailing_blank ''/path/to/vm.vmx'' = Inr ''/path/to/vm.vmx''"
    "filepath_Abs other_case ''/path/to/vm.vmx'' = Inr ''/path/to/vm.vmx''"
    "filepath_Abs relative_line ''vm.vmx'' = Inr ''/home/packer/vm.vmx''"
    by (simp_all add: two_vms_def other_vm_def trailing_blank_def other_case_def
        relative_line_def demo_defs)
  have b: "status (spawn two_vms (list_cmd two_vms s0)) = Exited 0"
    "status (spawn other_vm (list_cmd other_vm s0)) = Exited 0"
    "status (spawn trailing_blank (list_cmd trailing_blank s0)) = Exited 0"
    "status (spawn other_case (list_cmd other_case s0)) = Exited 0"
    "status (spawn relative_line (list_cmd relative_line s0)) = Exited 0"
    by (simp_all add: two_vms_def other_vm_def trailing_blank_def other_case_def
        relative_line_def demo_defs)
  have c: "''/path/to/vm.vmx'' \<in> set (list_lines two_vms s0)"
    "''/path/to/vm.vmx'' \<notin> set (list_lines other_vm s0)"
    "''/path/to/vm.vmx'' \<notin> set (list_lines trailing_blank s0)"
    "''/path/to/vm.vmx'' \<notin> set (list_lines other_case s0)"
    "''/home/packer/vm.vmx'' \<notin> set (list_lines relative_line s0)"
    by (simp_all add: two_vms_def other_vm_def trailing_blank_def other_case_def
        relative_line_def demo_defs)
  show ?thesis
    using IsRunning_true_iff_exact_line [OF a(1) b(1)] IsRunning_true_iff_exact_line [OF a(2) b(2)]
      IsRunning_true_iff_exact_line [OF a(3) b(3)] IsRunning_true_iff_exact_line [OF a(4) b(4)]
      IsRunning_true_iff_exact_line [OF a(5) b(5)] a(1) a(5) b(1) c
    by simp
qed

text \<open>
  Claim C2. For every output path and size, \<open>CreateDisk\<close> starts one child process: the
  disk manager, that is the program at the join of the bundle path with
  \<^verbatim>\<open>Contents/Library/vmware-vdiskmanager\<close>, with the arguments
  \<^verbatim>\<open>-c -s <size> -a lsilogic -t 1 <outputPath>\<close> in this order after the program's name,
  and no others.
\<close>

theorem CreateDisk_command_line:
  "execs (trace (snd (CreateDisk P output size_s s))) = execs (trace s) @
     [\<lparr>Path = filepath_Join P
               [AppPath (driver s), ''Contents'', ''Library'', ''vmware-vdiskmanager''],
       Args = [filepath_Join P
                 [AppPath (driver s), ''Contents'', ''Library'', ''vmware-vdiskmanager''],
               ''-c'', ''-s'', size_s, ''-a'', ''lsilogic'', ''-t'', ''1'', output]\<rparr>]"
  by (simp add: CreateDisk_eq runAndLog_trace execs_append create_cmd_def disk_manager_def)

theorem CreateDisk_command_line_witness:
  "execs (trace (snd (CreateDisk installed ''disk.vmdk'' ''40000MB'' s0))) =
     [\<lparr>Path = ''/Applications/VMware Fusion.app/Contents/Library/vmware-vdiskmanager'',
       Args = [''/Applications/VMware Fusion.app/Contents/Library/vmware-vdiskmanager'',
               ''-c'', ''-s'', ''40000MB'', ''-a'', ''lsilogic'', ''-t'', ''1'', ''disk.vmdk'']\<rparr>]"
  using CreateDisk_command_line [of installed "''disk.vmdk''" "''40000MB''" s0]
  by (simp add: installed_def demo_def s0_def fusion_def)

text \<open>
  Claim C3, as stated, does not hold. The disk manager writes
  \<^verbatim>\<open>Failed to create disk: disk full\<close> to its standard error and exits with status 1:
  \<open>CreateDisk\<close> returns the exit error of the process runner, whose text is
  \<^verbatim>\<open>exit status 1\<close>; the text of the standard error is not in it.
\<close>

theorem exit_error_lacks_stderr:
  "status (spawn disk_full (create_cmd disk_full s0 ''disk.vmdk'' ''40000MB'')) = Exited 1
   \<and> err_text (spawn disk_full (create_cmd disk_full s0 ''disk.vmdk'' ''40000MB'')) =
       ''Failed to create disk: disk full''
   \<and> fst (CreateDisk disk_full ''disk.vmdk'' ''40000MB'' s0) = Some (ExitError 1)
   \<and> Error (ExitError 1) = ''exit status 1''
   \<and> \<not> strings_Contains (Error (ExitError 1)) ''Failed to create disk: disk full''"
  by (simp add: CreateDisk_eq disk_full_def demo_def exited_def itoa.simps digit_def)

text \<open>
  Claim C3, amended. When the child of an operation exits with a status \<open>n\<close> other than
  0, the operation returns the exit error of the process runner, which holds the status
  alone (its text is \<^verbatim>\<open>exit status n\<close>), whatever the child wrote; the captured standard
  error goes, trimmed, to the last log line of the call.
\<close>

theorem nonzero_exit_returns_exit_status:
  "(status (spawn P (create_cmd P s output size_s)) = Exited n \<and> n \<noteq> 0 \<longrightarrow>
      fst (CreateDisk P output size_s s) = Some (ExitError n)
      \<and> last (logs (trace (snd (CreateDisk P output size_s s)))) =
          ''stderr: '' @ strings_TrimSpace P (err_text (spawn P (create_cmd P s output size_s))))
   \<and> (filepath_Abs P vmxPath = Inr a \<and> status (spawn P (list_cmd P s)) = Exited n \<and> n \<noteq> 0 \<longrightarrow>
      fst (IsRunning P vmxPath s) = (False, Some (ExitError n))
      \<and> last (logs (trace (snd (IsRunning P vmxPath s)))) =
          ''stderr: '' @ strings_TrimSpace P (err_text (spawn P (list_cmd P s))))
   \<and> (status (spawn P (start_cmd P s vmxPath)) = Exited n \<and> n \<noteq> 0 \<longrightarrow>
      fst (Start P vmxPath s) = Some (ExitError n)
      \<and> last (logs (trace (snd (Start P vmxPath s)))) =
          ''stderr: '' @ strings_TrimSpace P (err_text (spawn P (start_cmd P s vmxPath))))
   \<and> (status (spawn P (stop_cmd P s vmxPath)) = Exited n \<and> n \<noteq> 0 \<longrightarrow>
      fst (Stop P vmxPath s) = Some (ExitError n)
      \<and> last (logs (trace (snd (Stop P vmxPath s)))) =
          ''stderr: '' @ strings_TrimSpace P (err_text (spawn P (stop_cmd P s vmxPath))))
   \<and> Error (ExitError n) = ''exit status '' @ itoa n"
proof -
  have l: "last (logs (trace (snd (runAndLog P cmd s)))) =
      ''stderr: '' @ strings_TrimSpace P (err_text (spawn P cmd))" for cmd
    by (simp add: runAndLog_trace logs_append)
  have 1: "status (spawn P (create_cmd P s output size_s)) = Exited n \<and> n \<noteq> 0 \<longrightarrow>
      fst (CreateDisk P output size_s s) = Some (ExitError n)
      \<and> last (logs (trace (snd (CreateDisk P output size_s s)))) =
          ''stderr: '' @ strings_TrimSpace P (err_text (spawn P (create_cmd P s output size_s)))"
    by (simp add: CreateDisk_eq l)
  have 2: "filepath_Abs P vmxPath = Inr a \<and> status (spawn P (list_cmd P s)) = Exited n \<and> n \<noteq> 0 \<longrightarrow>
      fst (IsRunning P vmxPath s) = (False, Some (ExitError n))
      \<and> last (logs (trace (snd (IsRunning P vmxPath s)))) =
          ''stderr: '' @ strings_TrimSpace P (err_text (spawn P (list_cmd P s)))"
    by (simp add: IsRunning_eq l)
  have 3: "status (spawn P (start_cmd P s vmxPath)) = Exited n \<and> n \<noteq> 0 \<longrightarrow>
      fst (Start P vmxPath s) = Some (ExitError n)
      \<and> last (logs (trace (snd (Start P vmxPath s)))) =
          ''stderr: '' @ strings_TrimSpace P (err_text (spawn P (start_cmd P s vmxPath)))"
    by (simp add: Start_eq l)
  have 4: "status (spawn P (stop_cmd P s vmxPath)) = Exited n \<and> n \<noteq> 0 \<longrightarrow>
      fst (Stop P vmxPath s) = Some (ExitError n)
      \<and> last (logs (trace (snd (Stop P vmxPath s)))) =
          ''stderr: '' @ strings_TrimSpace P (err_text (spawn P (stop_cmd P s vmxPath)))"
    by (simp add: Stop_eq l)
  show ?thesis using 1 2 3 4 by simp
qed

theorem nonzero_exit_returns_exit_status_witness:
  "status (spawn disk_full (create_cmd disk_full s0 ''disk.vmdk'' ''40000MB'')) = Exited 1
   \<and> fst (CreateDisk disk_full ''disk.vmdk'' ''40000MB'' s0) = Some (ExitError 1)
   \<and> last (logs (trace (snd (CreateDisk disk_full ''disk.vmdk'' ''40000MB'' s0)))) =
       ''stderr: Failed to create disk: disk full''
   \<and> fst (IsRunning disk_full ''/path/to/vm.vmx'' s0) = (False, Some (ExitError 1))
   \<and> fst (Start disk_full ''/path/to/vm.vmx'' s0) = Some (ExitError 1)
   \<and> fst (Stop disk_full ''/path/to/vm.vmx'' s0) = Some (ExitError 1)
   \<and> Error (ExitError 1) = ''exit status 1''"
proof -
  have a: "status (spawn disk_full c) = Exited 1"
    "err_text (spawn disk_full c) = ''Failed to create disk: disk full''" for c
    by (simp_all add: disk_full_def demo_def exited_def)
  have b: "filepath_Abs disk_full ''/path/to/vm.vmx'' = Inr ''/path/to/vm.vmx''"
    by (simp add: disk_full_def demo_def)
  have t: "strings_TrimSpace disk_full ''Failed to create disk: disk full'' =
      ''Failed to create disk: disk full''"
    by (simp add: disk_full_def demo_def demo_TrimSpace_def is_space_def)
  have i: "itoa 1 = ''1''"
    by (simp add: itoa.simps digit_def)
  show ?thesis
    using nonzero_exit_returns_exit_status [of disk_full s0 "''disk.vmdk''" "''40000MB''" 1
        "''/path/to/vm.vmx''" "''/path/to/vm.vmx''"] a b t i
    by simp
qed

text \<open>
  Claim C4. For every path, \<open>Start\<close> starts one child process, the runner (the program
  at the join of the bundle path with \<^verbatim>\<open>Contents/Library/vmrun\<close>) with the arguments
  \<^verbatim>\<open>-T fusion start <vmxPath> gui\<close>, and \<open>Stop\<close> one, the same program with
  \<^verbatim>\<open>-T fusion stop <vmxPath> hard\<close>; the mode is the constant last argument.
\<close>

theorem Start_Stop_command_lines:
  "execs (trace (snd (Start P vmxPath s))) = execs (trace s) @
     [\<lparr>Path = filepath_Join P [AppPath (driver s), ''Contents'', ''Library'', ''vmrun''],
       Args = [filepath_Join P [AppPath (driver s), ''Contents'', ''Library'', ''vmrun''],
               ''-T'', ''fusion'', ''start'', vmxPath, ''gui'']\<rparr>]
   \<and> execs (trace (snd (Stop P vmxPath s))) = execs (trace s) @
     [\<lparr>Path = filepath_Join P [AppPath (driver s), ''Contents'', ''Library'', ''vmrun''],
       Args = [filepath_Join P [AppPath (driver s), ''Contents'', ''Library'', ''vmrun''],
               ''-T'', ''fusion'', ''stop'', vmxPath, ''hard'']\<rparr>]"
  by (simp add: Start_eq Stop_eq runAndLog_trace execs_append start_cmd_def stop_cmd_def
      runner_def)

theorem Start_Stop_command_lines_witness:
  "execs (trace (snd (Start installed ''/path/to/vm.vmx'' s0))) =
     [\<lparr>Path = ''/Applications/VMware Fusion.app/Contents/Library/vmrun'',
       Args = [''/Applications/VMware Fusion.app/Contents/Library/vmrun'',
               ''-T'', ''fusion'', ''start'', ''/path/to/vm.vmx'', ''gui'']\<rparr>]
   \<and> execs (trace (snd (Stop installed ''/path/to/vm.vmx'' s0))) =
     [\<lparr>Path = ''/Applications/VMware Fusion.app/Contents/Library/vmrun'',
       Args = [''/Applications/VMware Fusion.app/Contents/Library/vmrun'',
               ''-T'', ''fusion'', ''stop'', ''/path/to/vm.vmx'', ''hard'']\<rparr>]"
  using Start_Stop_command_lines [of installed "''/path/to/vm.vmx''" s0]
  by (simp add: installed_def demo_def s0_def fusion_def)

text \<open>
  Claim C5. \<open>Verify\<close> returns no error exactly when the bundle path, the runner and the
  disk manager are all there. It checks them in this order and stops at the first one
  missing: with the bundle missing it returns the message that the application was not
  found, after that one check; with the bundle there and the runner missing, the message
  that names \<^verbatim>\<open>vmrun\<close> and its path, after two checks; with both there and the disk
  manager missing, the message that names the vdisk manager and its path. The three
  messages differ from one another.
\<close>

theorem Verify_first_missing:
  "(fst (Verify P s) = None) =
     (exists_at P (AppPath (driver s)) \<and> exists_at P (vmrunPath P (driver s))
      \<and> exists_at P (vdiskManagerPath P (driver s)))
   \<and> (missing_at P (AppPath (driver s)) \<longrightarrow>
        fst (Verify P s) = Some (app_not_found (AppPath (driver s)))
        \<and> stats (trace (snd (Verify P s))) = stats (trace s) @ [AppPath (driver s)])
   \<and> (exists_at P (AppPath (driver s)) \<and> missing_at P (vmrunPath P (driver s)) \<longrightarrow>
        fst (Verify P s) = Some (vmrun_not_found (vmrunPath P (driver s)))
        \<and> stats (trace (snd (Verify P s))) =
            stats (trace s) @ [AppPath (driver s), vmrunPath P (driver s)])
   \<and> (exists_at P (AppPath (driver s)) \<and> exists_at P (vmrunPath P (driver s))
        \<and> missing_at P (vdiskManagerPath P (driver s)) \<longrightarrow>
        fst (Verify P s) = Some (vdisk_not_found (vdiskManagerPath P (driver s)))
        \<and> stats (trace (snd (Verify P s))) =
            stats (trace s) @ [AppPath (driver s), vmrunPath P (driver s),
                               vdiskManagerPath P (driver s)])
   \<and> (fst (Verify P s) = None \<longrightarrow>
        stats (trace (snd (Verify P s))) =
            stats (trace s) @ [AppPath (driver s), vmrunPath P (driver s),
                               vdiskManagerPath P (driver s)])
   \<and> app_not_found x \<noteq> vmrun_not_found y \<and> app_not_found x \<noteq> vdisk_not_found z
   \<and> vmrun_not_found y \<noteq> vdisk_not_found z"
proof -
  have r: "vmrunPath P (driver s) = runner P s"
    and d: "vdiskManagerPath P (driver s) = disk_manager P s"
    by (simp_all add: vmrunPath_def vdiskManagerPath_def runner_def disk_manager_def)
  have 1: "(fst (Verify P s) = None) =
     (exists_at P (AppPath (driver s)) \<and> exists_at P (runner P s)
      \<and> exists_at P (disk_manager P s))"
    by (simp add: Verify_eq exists_at_iff split: option.split)
  have 2: "missing_at P (AppPath (driver s)) \<longrightarrow>
        fst (Verify P s) = Some (app_not_found (AppPath (driver s)))
        \<and> stats (trace (snd (Verify P s))) = stats (trace s) @ [AppPath (driver s)]"
    by (simp add: Verify_eq missing_at_iff stats_append)
  have 3: "exists_at P (AppPath (driver s)) \<and> missing_at P (runner P s) \<longrightarrow>
        fst (Verify P s) = Some (vmrun_not_found (runner P s))
        \<and> stats (trace (snd (Verify P s))) =
            stats (trace s) @ [AppPath (driver s), runner P s]"
    by (simp add: Verify_eq missing_at_iff exists_at_iff stats_append)
  have 4: "exists_at P (AppPath (driver s)) \<and> exists_at P (runner P s)
        \<and> missing_at P (disk_manager P s) \<longrightarrow>
        fst (Verify P s) = Some (vdisk_not_found (disk_manager P s))
        \<and> stats (trace (snd (Verify P s))) =
            stats (trace s) @ [AppPath (driver s), runner P s, disk_manager P s]"
    by (simp add: Verify_eq missing_at_iff exists_at_iff stats_append)
  have 5: "fst (Verify P s) = None \<longrightarrow>
        stats (trace (snd (Verify P s))) =
            stats (trace s) @ [AppPath (driver s), runner P s, disk_manager P s]"
    using 1 by (simp add: Verify_stats)
  show ?thesis
    unfolding r d using 1 2 3 4 5 messages_distinct by blast
qed

theorem Verify_first_missing_witness:
  "fst (Verify installed s0) = None
   \<and> missing_at no_app ''/Applications/VMware Fusion.app''
   \<and> fst (Verify no_app s0) = Some (ErrorString
        ''Fusion application not found at path: /Applications/VMware Fusion.app'')
   \<and> stats (trace (snd (Verify no_app s0))) = [''/Applications/VMware Fusion.app'']
   \<and> exists_at no_vmrun ''/Applications/VMware Fusion.app''
   \<and> missing_at no_vmrun ''/Applications/VMware Fusion.app/Contents/Library/vmrun''
   \<and> fst (Verify no_vmrun s0) = Some (ErrorString
        ''Critical application 'vmrun' not found at path: /Applications/VMware Fusion.app/Contents/Library/vmrun'')
   \<and> exists_at no_vdisk ''/Applications/VMware Fusion.app/Contents/Library/vmrun''
   \<and> missing_at no_vdisk ''/Applications/VMware Fusion.app/Contents/Library/vmware-vdiskmanager''
   \<and> fst (Verify no_vdisk s0) = Some (ErrorString
        ''Critical application vdisk manager not found at path: /Applications/VMware Fusion.app/Contents/Library/vmware-vdiskmanager'')"
proof -
  have p: "AppPath (driver s0) = ''/Applications/VMware Fusion.app''"
    "vmrunPath P (driver s0) = filepath_Join P [''/Applications/VMware Fusion.app'', ''Contents'', ''Library'', ''vmrun'']"
    "vdiskManagerPath P (driver s0) = filepath_Join P [''/Applications/VMware Fusion.app'', ''Contents'', ''Library'', ''vmware-vdiskmanager'']" for P
    by (simp_all add: s0_def fusion_def vmrunPath_def vdiskManagerPath_def)
  have j: "filepath_Join installed = join_slash" "filepath_Join no_app = join_slash"
    "filepath_Join no_vmrun = join_slash" "filepath_Join no_vdisk = join_slash"
    by (simp_all add: installed_def no_app_def no_vmrun_def no_vdisk_def demo_def)
  have e: "exists_at installed q" for q
    by (simp add: installed_def demo_defs)
  have a: "missing_at no_app ''/Applications/VMware Fusion.app''"
    by (simp add: no_app_def demo_defs)
  have b: "exists_at no_vmrun ''/Applications/VMware Fusion.app''"
    "missing_at no_vmrun ''/Applications/VMware Fusion.app/Contents/Library/vmrun''"
    by (simp_all add: no_vmrun_def demo_defs)
  have c: "exists_at no_vdisk ''/Applications/VMware Fusion.app''"
    "exists_at no_vdisk ''/Applications/VMware Fusion.app/Contents/Library/vmrun''"
    "missing_at no_vdisk ''/Applications/VMware Fusion.app/Contents/Library/vmware-vdiskmanager''"
    by (simp_all add: no_vdisk_def demo_defs)
  have t: "stats (trace s0) = []"
    by (simp add: s0_def)
  show ?thesis
    using Verify_first_missing [of installed s0] Verify_first_missing [of no_app s0]
      Verify_first_missing [of no_vmrun s0] Verify_first_missing [of no_vdisk s0]
      e a b c t
    by (simp add: p j app_not_found_def vmrun_not_found_def vdisk_not_found_def)
qed

text \<open>
  Claim C6. When an existence check of \<open>Verify\<close> fails with an error that is not a
  not-exist error (permission denied, say) and the checks before it succeeded, \<open>Verify\<close>
  returns that very error; an error of an existence check is never one of the three
  not-found messages.
\<close>

theorem Verify_other_error_unchanged:
  "(os_Stat P (AppPath (driver s)) = Some err \<and> \<not> os_IsNotExist err \<longrightarrow>
      fst (Verify P s) = Some err)
   \<and> (os_Stat P (AppPath (driver s)) = None
      \<and> os_Stat P (vmrunPath P (driver s)) = Some err \<and> \<not> os_IsNotExist err \<longrightarrow>
      fst (Verify P s) = Some err)
   \<and> (os_Stat P (AppPath (driver s)) = None \<and> os_Stat P (vmrunPath P (driver s)) = None
      \<and> os_Stat P (vdiskManagerPath P (driver s)) = Some err \<and> \<not> os_IsNotExist err \<longrightarrow>
      fst (Verify P s) = Some err)
   \<and> (os_Stat P p = Some err \<longrightarrow>
      err \<noteq> app_not_found x \<and> err \<noteq> vmrun_not_found y \<and> err \<noteq> vdisk_not_found z)"
proof -
  have r: "vmrunPath P (driver s) = runner P s"
    and d: "vdiskManagerPath P (driver s) = disk_manager P s"
    by (simp_all add: vmrunPath_def vdiskManagerPath_def runner_def disk_manager_def)
  have 1: "os_Stat P (AppPath (driver s)) = Some err \<and> \<not> os_IsNotExist err \<longrightarrow>
      fst (Verify P s) = Some err"
    by (auto simp: Verify_eq os_Stat_def)
  have 2: "os_Stat P (AppPath (driver s)) = None
      \<and> os_Stat P (runner P s) = Some err \<and> \<not> os_IsNotExist err \<longrightarrow>
      fst (Verify P s) = Some err"
    by (auto simp: Verify_eq os_Stat_def)
  have 3: "os_Stat P (AppPath (driver s)) = None \<and> os_Stat P (runner P s) = None
      \<and> os_Stat P (disk_manager P s) = Some err \<and> \<not> os_IsNotExist err \<longrightarrow>
      fst (Verify P s) = Some err"
    by (auto simp: Verify_eq os_Stat_def)
  have 4: "os_Stat P p = Some err \<longrightarrow>
      err \<noteq> app_not_found x \<and> err \<noteq> vmrun_not_found y \<and> err \<noteq> vdisk_not_found z"
    by (auto simp: os_Stat_def app_not_found_def vmrun_not_found_def vdisk_not_found_def)
  show ?thesis unfolding r d using 1 2 3 4 by blast
qed


theorem Verify_other_error_unchanged_witness:
  "os_Stat app_denied ''/Applications/VMware Fusion.app'' =
     Some (PathError ''stat'' ''/Applications/VMware Fusion.app'' EACCES)
   \<and> \<not> os_IsNotExist (PathError ''stat'' ''/Applications/VMware Fusion.app'' EACCES)
   \<and> fst (Verify app_denied s0) =
       Some (PathError ''stat'' ''/Applications/VMware Fusion.app'' EACCES)
   \<and> os_Stat vmrun_denied ''/Applications/VMware Fusion.app'' = None
   \<and> fst (Verify vmrun_denied s0) =
       Some (PathError ''stat'' ''/Applications/VMware Fusion.app/Contents/Library/vmrun'' EACCES)
   \<and> os_Stat vdisk_denied ''/Applications/VMware Fusion.app/Contents/Library/vmrun'' = None
   \<and> fst (Verify vdisk_denied s0) =
       Some (PathError ''stat''
              ''/Applications/VMware Fusion.app/Contents/Library/vmware-vdiskmanager'' EACCES)"
proof -
  have p: "AppPath (driver s0) = ''/Applications/VMware Fusion.app''"
    "vmrunPath app_denied (driver s0) = ''/Applications/VMware Fusion.app/Contents/Library/vmrun''"
    "vmrunPath vmrun_denied (driver s0) = ''/Applications/VMware Fusion.app/Contents/Library/vmrun''"
    "vmrunPath vdisk_denied (driver s0) = ''/Applications/VMware Fusion.app/Contents/Library/vmrun''"
    "vdiskManagerPath app_denied (driver s0) =
       ''/Applications/VMware Fusion.app/Contents/Library/vmware-vdiskmanager''"
    "vdiskManagerPath vmrun_denied (driver s0) =
       ''/Applications/VMware Fusion.app/Contents/Library/vmware-vdiskmanager''"
    "vdiskManagerPath vdisk_denied (driver s0) =
       ''/Applications/VMware Fusion.app/Contents/Library/vmware-vdiskmanager''"
    by (simp_all add: s0_def fusion_def vmrunPath_def vdiskManagerPath_def app_denied_def
        vmrun_denied_def vdisk_denied_def demo_def)
  have a: "os_Stat app_denied ''/Applications/VMware Fusion.app'' =
     Some (PathError ''stat'' ''/Applications/VMware Fusion.app'' EACCES)"
    by (simp add: app_denied_def demo_defs)
  have b: "os_Stat vmrun_denied ''/Applications/VMware Fusion.app'' = None"
    "os_Stat vmrun_denied ''/Applications/VMware Fusion.app/Contents/Library/vmrun'' =
       Some (PathError ''stat'' ''/Applications/VMware Fusion.app/Contents/Library/vmrun'' EACCES)"
    by (simp_all add: vmrun_denied_def demo_defs)
  have c: "os_Stat vdisk_denied ''/Applications/VMware Fusion.app'' = None"
    "os_Stat vdisk_denied ''/Applications/VMware Fusion.app/Contents/Library/vmrun'' = None"
    "os_Stat vdisk_denied ''/Applications/VMware Fusion.app/Contents/Library/vmware-vdiskmanager'' =
       Some (PathError ''stat''
              ''/Applications/VMware Fusion.app/Contents/Library/vmware-vdiskmanager'' EACCES)"
    by (simp_all add: vdisk_denied_def demo_defs)
  show ?thesis
    using a b c
      Verify_other_error_unchanged [of app_denied s0
        "PathError ''stat'' ''/Applications/VMware Fusion.app'' EACCES"
        "''/Applications/VMware Fusion.app''"]
      Verify_other_error_unchanged [of vmrun_denied s0
        "PathError ''stat'' ''/Applications/VMware Fusion.app/Contents/Library/vmrun'' EACCES"
        "''/Applications/VMware Fusion.app/Contents/Library/vmrun''"]
      Verify_other_error_unchanged [of vdisk_denied s0
        "PathError ''stat''
           ''/Applications/VMware Fusion.app/Contents/Library/vmware-vdiskmanager'' EACCES"
        "''/Applications/VMware Fusion.app/Contents/Library/vmware-vdiskmanager''"]
    by (simp add: p)
qed

text \<open>
  Claim C7. The runner's path is the join of the bundle path with
  \<^verbatim>\<open>Contents/Library/vmrun\<close>, the disk manager's the join with
  \<^verbatim>\<open>Contents/Library/vmware-vdiskmanager\<close>. Every child process is started at the path
  joined from the bundle path of the driver at that call, and \<open>Verify\<close> checks these
  paths; nothing is kept between calls: when the bundle path is changed to \<open>B\<close> between
  two calls of \<open>Start\<close>, the second runs the runner under \<open>B\<close>.
\<close>

theorem tool_paths_joined_on_every_call:
  "vmrunPath P d = filepath_Join P [AppPath d, ''Contents'', ''Library'', ''vmrun'']
   \<and> vdiskManagerPath P d =
       filepath_Join P [AppPath d, ''Contents'', ''Library'', ''vmware-vdiskmanager'']
   \<and> map Path (execs (trace (snd (CreateDisk P output size_s s)))) =
       map Path (execs (trace s)) @ [vdiskManagerPath P (driver s)]
   \<and> map Path (execs (trace (snd (IsRunning P vmxPath s)))) =
       map Path (execs (trace s)) @
         (case filepath_Abs P vmxPath of Inl e \<Rightarrow> [] | Inr a \<Rightarrow> [vmrunPath P (driver s)])
   \<and> map Path (execs (trace (snd (Start P vmxPath s)))) =
       map Path (execs (trace s)) @ [vmrunPath P (driver s)]
   \<and> map Path (execs (trace (snd (Stop P vmxPath s)))) =
       map Path (execs (trace s)) @ [vmrunPath P (driver s)]
   \<and> stats (trace (snd (Verify P s))) = stats (trace s) @
       (if exists_at P (AppPath (driver s))
        then if exists_at P (vmrunPath P (driver s))
             then [AppPath (driver s), vmrunPath P (driver s), vdiskManagerPath P (driver s)]
             else [AppPath (driver s), vmrunPath P (driver s)]
        else [AppPath (driver s)])
   \<and> map Path (execs (trace (snd (Start P vmxPath'
         ((snd (Start P vmxPath s))\<lparr>driver := \<lparr>AppPath = B\<rparr>\<rparr>))))) =
       map Path (execs (trace s)) @
         [filepath_Join P [AppPath (driver s), ''Contents'', ''Library'', ''vmrun''],
          filepath_Join P [B, ''Contents'', ''Library'', ''vmrun'']]"
proof -
  have r: "vmrunPath P (driver s) = runner P s"
    and d: "vdiskManagerPath P (driver s) = disk_manager P s"
    by (simp_all add: vmrunPath_def vdiskManagerPath_def runner_def disk_manager_def)
  have 1: "map Path (execs (trace (snd (CreateDisk P output size_s s)))) =
       map Path (execs (trace s)) @ [disk_manager P s]"
    by (simp add: CreateDisk_eq runAndLog_trace execs_append create_cmd_def)
  have 2: "map Path (execs (trace (snd (IsRunning P vmxPath s)))) =
       map Path (execs (trace s)) @
         (case filepath_Abs P vmxPath of Inl e \<Rightarrow> [] | Inr a \<Rightarrow> [runner P s])"
    by (simp add: IsRunning_trace runAndLog_trace execs_append list_cmd_def split: sum.split)
  have 3: "map Path (execs (trace (snd (Start P v t)))) =
       map Path (execs (trace t)) @ [runner P t]" for v t
    by (simp add: Start_eq runAndLog_trace execs_append start_cmd_def)
  have 4: "map Path (execs (trace (snd (Stop P vmxPath s)))) =
       map Path (execs (trace s)) @ [runner P s]"
    by (simp add: Stop_eq runAndLog_trace execs_append stop_cmd_def)
  have 5: "stats (trace (snd (Verify P s))) = stats (trace s) @
       (if exists_at P (AppPath (driver s))
        then if exists_at P (runner P s)
             then [AppPath (driver s), runner P s, disk_manager P s]
             else [AppPath (driver s), runner P s]
        else [AppPath (driver s)])"
    by (simp add: Verify_stats)
  have 6: "map Path (execs (trace (snd (Start P vmxPath'
         ((snd (Start P vmxPath s))\<lparr>driver := \<lparr>AppPath = B\<rparr>\<rparr>))))) =
       map Path (execs (trace s)) @
         [filepath_Join P [AppPath (driver s), ''Contents'', ''Library'', ''vmrun''],
          filepath_Join P [B, ''Contents'', ''Library'', ''vmrun'']]"
    by (simp add: 3 runner_def)
  show ?thesis
    unfolding r d using 1 2 3 [of vmxPath s] 4 5 6
    by (simp add: vmrunPath_def vdiskManagerPath_def)
qed

text \<open>
  Claim C8. When the absolute form of the path cannot be found, \<open>IsRunning\<close> returns
  false with the error of the resolution as it is, and starts no child process (it leaves
  the state as it was).
\<close>

theorem IsRunning_resolution_error:
  assumes "filepath_Abs P vmxPath = Inl e"
  shows "fst (IsRunning P vmxPath s) = (False, Some e)
         \<and> snd (IsRunning P vmxPath s) = s
         \<and> execs (trace (snd (IsRunning P vmxPath s))) = execs (trace s)"
  using assms by (simp add: IsRunning_eq)

theorem IsRunning_resolution_error_witness:
  "filepath_Abs lost_cwd ''vm.vmx'' = Inl (SyscallError ''getwd'' ENOENT)
   \<and> IsRunning lost_cwd ''vm.vmx'' s0 = ((False, Some (SyscallError ''getwd'' ENOENT)), s0)"
proof -
  have a: "filepath_Abs lost_cwd ''vm.vmx'' = Inl (SyscallError ''getwd'' ENOENT)"
    by (simp add: lost_cwd_def demo_defs)
  show ?thesis
    using a IsRunning_resolution_error [OF a, of s0] by (simp add: prod_eq_iff)
qed

text \<open>
  Claim C9. After each of the five operations, on every input, the bundle path of the
  driver is what it was before the call.
\<close>

theorem AppPath_never_mutated:
  "AppPath (driver (snd (CreateDisk P output size_s s))) = AppPath (driver s)
   \<and> AppPath (driver (snd (IsRunning P vmxPath s))) = AppPath (driver s)
   \<and> AppPath (driver (snd (Start P vmxPath s))) = AppPath (driver s)
   \<and> AppPath (driver (snd (Stop P vmxPath s))) = AppPath (driver s)
   \<and> AppPath (driver (snd (Verify P s))) = AppPath (driver s)"
  by (simp add: CreateDisk_eq IsRunning_eq Start_eq Stop_eq Verify_eq runAndLog_driver
      split: sum.split option.split)

text \<open>
  Claim C10. Whenever \<open>IsRunning\<close> returns an error, the boolean it returns with it is
  false.
\<close>

theorem IsRunning_error_means_false:
  assumes "snd (fst (IsRunning P vmxPath s)) \<noteq> None"
  shows "fst (fst (IsRunning P vmxPath s)) = False"
  using assms by (simp add: IsRunning_eq split: sum.splits option.splits)

theorem IsRunning_error_means_false_witness:
  "snd (fst (IsRunning lost_cwd ''vm.vmx'' s0)) \<noteq> None
   \<and> fst (fst (IsRunning lost_cwd ''vm.vmx'' s0)) = False
   \<and> snd (fst (IsRunning disk_full ''/path/to/vm.vmx'' s0)) \<noteq> None
   \<and> fst (fst (IsRunning disk_full ''/path/to/vm.vmx'' s0)) = False"
proof -
  have a: "snd (fst (IsRunning lost_cwd ''vm.vmx'' s0)) \<noteq> None"
    by (simp add: IsRunning_eq lost_cwd_def demo_defs)
  have b: "snd (fst (IsRunning disk_full ''/path/to/vm.vmx'' s0)) \<noteq> None"
    by (simp add: IsRunning_eq disk_full_def demo_defs)
  show ?thesis
    using a b IsRunning_error_means_false [OF a] IsRunning_error_means_false [OF b] by simp
qed

end
